theory Spec2Isabelle
  imports Complex_Main "HOL-Library.Sublist"
begin

section \<open>Python values, exceptions and the collaborators of the tools\<close>

text \<open>
  The two tool functions of \<^verbatim>\<open>multi_tool_agent/agent.py\<close> read the process
  environment, call \<^verbatim>\<open>requests.get\<close> and walk the decoded JSON document.
  A decoded JSON document is a dynamically typed Python value. Floating point numbers
  are kept abstract (type variable \<open>'f\<close>): the model never computes with them itself.
\<close>

datatype 'f json =
    JNull
  | JBool bool
  | JInt int
  | JFloat 'f
  | JStr string
  | JArr "'f json list"
  | JObj "(string \<times> 'f json) list"

text \<open>
  The exception classes the \<^verbatim>\<open>except\<close> clauses tell apart. The string is
  \<^verbatim>\<open>str(e)\<close>. \<open>RequestException\<close> stands for
  \<^verbatim>\<open>requests.exceptions.RequestException\<close> and all its subclasses
  (\<^verbatim>\<open>HTTPError\<close>, \<^verbatim>\<open>ConnectionError\<close>, \<^verbatim>\<open>JSONDecodeError\<close>, ...),
  \<open>TypeError\<close> is raised by subscripting a value that does not support it,
  \<open>AttributeError\<close> by calling \<^verbatim>\<open>get\<close> on a value that is not a dictionary,
  and \<open>OtherException\<close> is any other class.
\<close>

datatype pyexn =
    RequestException string
  | KeyError string
  | IndexError string
  | TypeError
  | AttributeError
  | OtherException string

definition bind_exn :: "pyexn + 'a \<Rightarrow> ('a \<Rightarrow> pyexn + 'b) \<Rightarrow> pyexn + 'b" where
  "bind_exn m k = (case m of Inl e \<Rightarrow> Inl e | Inr x \<Rightarrow> k x)"

text \<open>A request made with \<^verbatim>\<open>requests.get(url, params=params)\<close>.\<close>

record 'f request =
  url :: string
  params :: "(string \<times> 'f json) list"

text \<open>
  What the code observes of a \<^verbatim>\<open>Response\<close>: whether
  \<^verbatim>\<open>raise_for_status()\<close> raises, and what \<^verbatim>\<open>json()\<close> returns or raises.
\<close>

record 'f response =
  raise_for_status :: "pyexn option"
  json_body :: "pyexn + 'f json"

text \<open>
  The network: given the requests already made during this call and the next request,
  either an exception raised by \<^verbatim>\<open>requests.get\<close> or a response.
\<close>

type_synonym 'f network = "'f request list \<Rightarrow> 'f request \<Rightarrow> pyexn + 'f response"

text \<open>
  The operations of the Python runtime on decoded values that the model does not compute:
  \<^verbatim>\<open>str(v)\<close> of a value that is not a string, the arithmetic of
  \<^verbatim>\<open>(temp_c * 9/5) + 32\<close>, the format specification \<^verbatim>\<open>.1f\<close>, and whether
  a floating point number is non-zero.
\<close>

record 'f pyrt =
  py_repr :: "'f json \<Rightarrow> string"
  py_mul :: "'f json \<Rightarrow> int \<Rightarrow> pyexn + 'f json"
  py_truediv :: "'f json \<Rightarrow> int \<Rightarrow> pyexn + 'f json"
  py_add :: "'f json \<Rightarrow> int \<Rightarrow> pyexn + 'f json"
  py_format_1f :: "'f json \<Rightarrow> pyexn + string"
  float_nonzero :: "'f \<Rightarrow> bool"

text \<open>\<^verbatim>\<open>f"{v}"\<close>: a string is inserted as it is.\<close>

definition py_str :: "'f pyrt \<Rightarrow> 'f json \<Rightarrow> string" where
  "py_str rt v = (case v of JStr s \<Rightarrow> s | _ \<Rightarrow> py_repr rt v)"

text \<open>Truth value of a decoded value, as \<^verbatim>\<open>if not geocode_data\<close> tests it.\<close>

definition truthy :: "'f pyrt \<Rightarrow> 'f json \<Rightarrow> bool" where
  "truthy rt v =
     (case v of
        JNull \<Rightarrow> False
      | JBool b \<Rightarrow> b
      | JInt n \<Rightarrow> n \<noteq> 0
      | JFloat x \<Rightarrow> float_nonzero rt x
      | JStr s \<Rightarrow> s \<noteq> []
      | JArr xs \<Rightarrow> xs \<noteq> []
      | JObj kvs \<Rightarrow> kvs \<noteq> [])"

text \<open>
  \<^verbatim>\<open>v[key]\<close> with a string key. A dictionary without the key raises
  \<^verbatim>\<open>KeyError(key)\<close>, whose \<^verbatim>\<open>str\<close> is the key in quotes; every value
  that is not a dictionary raises \<^verbatim>\<open>TypeError\<close>. \<open>quoted s\<close> is
  \<open>s\<close> between single quotes.
\<close>

definition quoted :: "string \<Rightarrow> string" where
  "quoted s = CHR 0x27 # s @ [CHR 0x27]"

definition getitem_str :: "'f json \<Rightarrow> string \<Rightarrow> pyexn + 'f json" where
  "getitem_str v key =
     (case v of
        JObj kvs \<Rightarrow>
          (case map_of kvs key of
             Some x \<Rightarrow> Inr x
           | None \<Rightarrow> Inl (KeyError (quoted key)))
      | _ \<Rightarrow> Inl TypeError)"

text \<open>
  \<^verbatim>\<open>v[0]\<close>. A decoded dictionary has string keys only, so the key \<open>0\<close> is
  never present.
\<close>

definition getitem_0 :: "'f json \<Rightarrow> pyexn + 'f json" where
  "getitem_0 v =
     (case v of
        JArr xs \<Rightarrow>
          (case xs of
             [] \<Rightarrow> Inl (IndexError ''list index out of range'')
           | x # _ \<Rightarrow> Inr x)
      | JStr s \<Rightarrow>
          (case s of
             [] \<Rightarrow> Inl (IndexError ''string index out of range'')
           | c # _ \<Rightarrow> Inr (JStr [c]))
      | JObj kvs \<Rightarrow> Inl (KeyError ''0'')
      | _ \<Rightarrow> Inl TypeError)"

text \<open>\<^verbatim>\<open>v.get(key, default)\<close>: only a dictionary has the method.\<close>

definition dict_get :: "'f json \<Rightarrow> string \<Rightarrow> 'f json \<Rightarrow> pyexn + 'f json" where
  "dict_get v key dflt =
     (case v of
        JObj kvs \<Rightarrow> (case map_of kvs key of Some x \<Rightarrow> Inr x | None \<Rightarrow> Inr dflt)
      | _ \<Rightarrow> Inl AttributeError)"

text \<open>\<^verbatim>\<open>os.environ\<close>, and the test \<^verbatim>\<open>if not api_key\<close>.\<close>

type_synonym environ = "string \<rightharpoonup> string"

definition key_missing :: "string option \<Rightarrow> bool" where
  "key_missing k = (case k of None \<Rightarrow> True | Some s \<Rightarrow> s = [])"

section \<open>The result envelope\<close>

text \<open>
  The dictionary a tool returns, with string keys and string values, as the list of its
  items in insertion order. \<open>dict_keys\<close> and \<open>lookup_field\<close> read it.
\<close>

type_synonym envelope = "(string \<times> string) list"

definition dict_keys :: "envelope \<Rightarrow> string list" where
  "dict_keys d = map fst d"

definition lookup_field :: "envelope \<Rightarrow> string \<Rightarrow> string option" where
  "lookup_field d key = map_of d key"

definition success_envelope :: "string \<Rightarrow> envelope" where
  "success_envelope report = [(''status'', ''success''), (''report'', report)]"

definition error_envelope :: "string \<Rightarrow> envelope" where
  "error_envelope msg = [(''status'', ''error''), (''error_message'', msg)]"

text \<open>A call returns a dictionary or raises, and leaves the list of requests it made.\<close>

type_synonym 'f tool_run = "(pyexn + envelope) \<times> 'f request list"

text \<open>\<^verbatim>\<open>sub in s\<close> for two strings.\<close>

definition contains :: "string \<Rightarrow> string \<Rightarrow> bool" where
  "contains s sub = sublist sub s"

section \<open>\<^verbatim>\<open>get_weather\<close>\<close>

definition weather_try :: "'f pyrt \<Rightarrow> 'f network \<Rightarrow> 'f request \<Rightarrow> string \<Rightarrow> pyexn + envelope" where
  "weather_try rt net req city =
     bind_exn (net [] req) (\<lambda>response.
     bind_exn (case raise_for_status response of Some e \<Rightarrow> Inl e | None \<Rightarrow> Inr ()) (\<lambda>_.
     bind_exn (json_body response) (\<lambda>data.
     bind_exn (getitem_str data ''main'') (\<lambda>main_obj.
     bind_exn (getitem_str main_obj ''temp'') (\<lambda>temp_c.
     bind_exn (py_mul rt temp_c 9) (\<lambda>t9.
     bind_exn (py_truediv rt t9 5) (\<lambda>t95.
     bind_exn (py_add rt t95 32) (\<lambda>temp_f.
     bind_exn (getitem_str data ''weather'') (\<lambda>weather.
     bind_exn (getitem_0 weather) (\<lambda>weather0.
     bind_exn (getitem_str weather0 ''description'') (\<lambda>weather_desc.
     bind_exn (py_format_1f rt temp_c) (\<lambda>c_text.
     bind_exn (py_format_1f rt temp_f) (\<lambda>f_text.
       Inr (success_envelope
         (''The weather in '' @ city @ '' is '' @ py_str rt weather_desc
           @ '' with a temperature of '' @ c_text @ '' degrees''
           @ '' Celsius ('' @ f_text @ '' degrees Fahrenheit).'')))))))))))))))"

text \<open>The two \<^verbatim>\<open>except\<close> clauses; any other exception propagates.\<close>

definition weather_except :: "string \<Rightarrow> pyexn + envelope \<Rightarrow> pyexn + envelope" where
  "weather_except city r =
     (case r of
        Inr d \<Rightarrow> Inr d
      | Inl (RequestException m) \<Rightarrow>
          Inr (error_envelope (''Error fetching weather for '' @ quoted city @ '': '' @ m))
      | Inl (KeyError m) \<Rightarrow>
          Inr (error_envelope (''Error parsing weather data for '' @ quoted city @ '': '' @ m))
      | Inl (IndexError m) \<Rightarrow>
          Inr (error_envelope (''Error parsing weather data for '' @ quoted city @ '': '' @ m))
      | Inl e \<Rightarrow> Inl e)"

definition weather_request :: "string \<Rightarrow> string \<Rightarrow> 'f request" where
  "weather_request city api_key =
     \<lparr>url = ''https://api.openweathermap.org/data/2.5/weather'',
      params = [(''q'', JStr city), (''appid'', JStr api_key), (''units'', JStr ''metric'')]\<rparr>"

definition get_weather :: "'f pyrt \<Rightarrow> environ \<Rightarrow> 'f network \<Rightarrow> string \<Rightarrow> 'f tool_run" where
  "get_weather rt env net city =
     (let api_key = env ''WEATHER_API_KEY'' in
      if key_missing api_key then
        (Inr (error_envelope ''Weather API key not found in environment variables.''), [])
      else
        let req = weather_request city (the api_key)
        in (weather_except city (weather_try rt net req city), [req]))"

section \<open>\<^verbatim>\<open>get_current_time\<close>\<close>

text \<open>
  The first half of the \<^verbatim>\<open>try\<close> block, after the check of the weather key: the
  geocoding request. It raises, returns early with an envelope (\<open>Inr (Inl d)\<close>), or
  yields the coordinates.
\<close>

definition geocode_step ::
  "'f pyrt \<Rightarrow> 'f network \<Rightarrow> 'f request \<Rightarrow> string \<Rightarrow> pyexn + (envelope + 'f json \<times> 'f json)" where
  "geocode_step rt net req city =
     bind_exn (net [] req) (\<lambda>geocode_response.
     bind_exn (case raise_for_status geocode_response of Some e \<Rightarrow> Inl e | None \<Rightarrow> Inr ()) (\<lambda>_.
     bind_exn (json_body geocode_response) (\<lambda>geocode_data.
       if \<not> truthy rt geocode_data then
         Inr (Inl (error_envelope (''Could not find location data for '' @ quoted city @ ''.'')))
       else
         bind_exn (getitem_0 geocode_data) (\<lambda>g0.
         bind_exn (getitem_str g0 ''lat'') (\<lambda>lat.
         bind_exn (getitem_0 geocode_data) (\<lambda>g1.
         bind_exn (getitem_str g1 ''lon'') (\<lambda>lon.
           Inr (Inr (lat, lon)))))))))"

text \<open>The second half: the time zone request, made after the geocoding request.\<close>

definition timezone_step ::
  "'f pyrt \<Rightarrow> 'f network \<Rightarrow> 'f request list \<Rightarrow> 'f request \<Rightarrow> string \<Rightarrow> pyexn + envelope" where
  "timezone_step rt net made req city =
     bind_exn (net made req) (\<lambda>timezone_response.
     bind_exn (case raise_for_status timezone_response of Some e \<Rightarrow> Inl e | None \<Rightarrow> Inr ()) (\<lambda>_.
     bind_exn (json_body timezone_response) (\<lambda>timezone_data.
     bind_exn (getitem_str timezone_data ''status'') (\<lambda>st.
       if st \<noteq> JStr ''OK'' then
         bind_exn (dict_get timezone_data ''message'' (JStr ''Unknown error'')) (\<lambda>msg.
           Inr (error_envelope (''Error fetching timezone data: '' @ py_str rt msg)))
       else
         bind_exn (getitem_str timezone_data ''formatted'') (\<lambda>formatted_time.
         bind_exn (getitem_str timezone_data ''zoneName'') (\<lambda>zone_name.
           Inr (success_envelope
             (''The current time in '' @ city @ '' is '' @ py_str rt formatted_time
               @ '' ('' @ py_str rt zone_name @ '')''))))))))"

definition geocode_request :: "string \<Rightarrow> string \<Rightarrow> 'f request" where
  "geocode_request city weather_api_key =
     \<lparr>url = ''https://api.openweathermap.org/geo/1.0/direct'',
      params = [(''q'', JStr city), (''limit'', JInt 1), (''appid'', JStr weather_api_key)]\<rparr>"

definition timezone_request :: "string \<Rightarrow> 'f json \<Rightarrow> 'f json \<Rightarrow> 'f request" where
  "timezone_request api_key lat lon =
     \<lparr>url = ''https://api.timezonedb.com/v2.1/get-time-zone'',
      params = [(''key'', JStr api_key), (''format'', JStr ''json''), (''by'', JStr ''position''),
                (''fields'', JStr ''zoneName,formatted''), (''lat'', lat), (''lng'', lon)]\<rparr>"

definition time_try :: "'f pyrt \<Rightarrow> environ \<Rightarrow> 'f network \<Rightarrow> string \<Rightarrow> string \<Rightarrow> 'f tool_run" where
  "time_try rt env net city api_key =
     (let weather_api_key = env ''WEATHER_API_KEY'' in
      if key_missing weather_api_key then
        (Inr (error_envelope
           ''Weather API key not found in environment variables (needed for geocoding).''), [])
      else
        let geocode_req = geocode_request city (the weather_api_key)
        in case geocode_step rt net geocode_req city of
             Inl e \<Rightarrow> (Inl e, [geocode_req])
           | Inr (Inl d) \<Rightarrow> (Inr d, [geocode_req])
           | Inr (Inr (lat, lon)) \<Rightarrow>
               let timezone_req = timezone_request api_key lat lon
               in (timezone_step rt net [geocode_req] timezone_req city,
                   [geocode_req, timezone_req]))"

definition time_except :: "string \<Rightarrow> pyexn + envelope \<Rightarrow> pyexn + envelope" where
  "time_except city r =
     (case r of
        Inr d \<Rightarrow> Inr d
      | Inl (RequestException m) \<Rightarrow>
          Inr (error_envelope (''Error fetching time data for '' @ quoted city @ '': '' @ m))
      | Inl (KeyError m) \<Rightarrow>
          Inr (error_envelope (''Error parsing time data for '' @ quoted city @ '': '' @ m))
      | Inl (IndexError m) \<Rightarrow>
          Inr (error_envelope (''Error parsing time data for '' @ quoted city @ '': '' @ m))
      | Inl e \<Rightarrow> Inl e)"

definition get_current_time :: "'f pyrt \<Rightarrow> environ \<Rightarrow> 'f network \<Rightarrow> string \<Rightarrow> 'f tool_run" where
  "get_current_time rt env net city =
     (let api_key = env ''TIMEZONE_API_KEY'' in
      if key_missing api_key then
        (Inr (error_envelope ''Timezone API key not found in environment variables.''), [])
      else
        case time_try rt env net city (the api_key) of
          (r, made) \<Rightarrow> (time_except city r, made))"

section \<open>Tool, registry and dispatcher\<close>

text \<open>
  \<^verbatim>\<open>cli.py\<close> builds \<^verbatim>\<open>Tool(name=..., function=..., description=...)\<close>
  objects, adds them to a \<^verbatim>\<open>MultiToolAgent\<close> and calls \<^verbatim>\<open>agent.run(task)\<close>, and
  reads the global \<^verbatim>\<open>registry\<close>. The classes themselves are in no source file, so
  their behaviour is taken from sections 3, 4 and 7 of the specification.
\<close>

text \<open>The text of an exception that was raised, \<^verbatim>\<open>str(e)\<close>.\<close>

type_synonym failure = string

text \<open>
  Modelled from the spec: the class \<^verbatim>\<open>Tool\<close> is missing from the sources. Section 3:
  a name, a callable that takes the arguments and returns a result envelope (or raises),
  and a description; these are also the three arguments \<^verbatim>\<open>cli.py\<close> constructs it
  with. The field \<open>func\<close> is the attribute \<^verbatim>\<open>function\<close>.
\<close>

record 'a tool =
  name :: string
  func :: "'a \<Rightarrow> failure + envelope"
  description :: string

text \<open>
  Modelled from the spec: \<^verbatim>\<open>Tool.invoke\<close> is missing from the sources. Section 4.1:
  any failure raised by the underlying function is caught and converted into an error
  envelope whose message includes the tool name and the original failure reason; a
  returned envelope is passed on. The wording of the message around the two is a choice
  of this model.
\<close>

definition invoke :: "'a tool \<Rightarrow> 'a \<Rightarrow> envelope" where
  "invoke t arguments =
     (case func t arguments of
        Inr d \<Rightarrow> d
      | Inl reason \<Rightarrow>
          error_envelope (''Error executing tool '' @ quoted (name t) @ '': '' @ reason))"

text \<open>
  Modelled from the spec: the registry and its exceptions are missing from the sources.
  Section 7 names the two errors, each with the tool name it is about; section 3 makes
  the registry a mapping from tool name to tool, kept here in registration order.
\<close>

datatype registry_error = DuplicateToolError string | ToolNotFoundError string

record 'a registry =
  tools :: "(string \<times> 'a tool) list"

definition empty_registry :: "'a registry" where
  "empty_registry = \<lparr>tools = []\<rparr>"

text \<open>
  Modelled from the spec: the registry class is missing from the sources. Section 4.2,
  with the recommended policy for a duplicate name: \<^verbatim>\<open>register\<close> fails with
  \<^verbatim>\<open>DuplicateToolError\<close>. The catalog keeps registration order.
\<close>

definition register :: "'a tool \<Rightarrow> 'a registry \<Rightarrow> registry_error + 'a registry" where
  "register t r =
     (if name t \<in> set (map fst (tools r)) then Inl (DuplicateToolError (name t))
      else Inr (r\<lparr>tools := tools r @ [(name t, t)]\<rparr>))"

text \<open>
  Modelled from the spec: section 4.2, \<^verbatim>\<open>lookup(name)\<close> fails with
  \<^verbatim>\<open>ToolNotFoundError\<close> when the name is absent.
\<close>

definition lookup :: "string \<Rightarrow> 'a registry \<Rightarrow> registry_error + 'a tool" where
  "lookup n r =
     (case map_of (tools r) n of
        Some t \<Rightarrow> Inr t
      | None \<Rightarrow> Inl (ToolNotFoundError n))"

text \<open>Modelled from the spec: section 4.2, the names in registration order.\<close>

definition list_tools :: "'a registry \<Rightarrow> string list" where
  "list_tools r = map fst (tools r)"

text \<open>Modelled from the spec: section 4.2, the mapping from name to description.\<close>

definition get_tool_descriptions :: "'a registry \<Rightarrow> (string \<times> string) list" where
  "get_tool_descriptions r = map (\<lambda>(n, t). (n, description t)) (tools r)"

text \<open>
  Modelled from the spec: section 3, the registry is populated by registration calls
  before first use. The tools are registered one after the other; a registry is returned
  when every registration succeeded, so the registries it returns are those reached from
  the given one by successful registrations.
\<close>

fun register_all :: "'a tool list \<Rightarrow> 'a registry \<Rightarrow> registry_error + 'a registry" where
  "register_all [] r = Inr r"
| "register_all (t # ts) r =
     (case register t r of Inl e \<Rightarrow> Inl e | Inr r' \<Rightarrow> register_all ts r')"

text \<open>
  The outcome of a run: the four fields \<^verbatim>\<open>cli.py\<close> reads from the dictionary that
  \<^verbatim>\<open>agent.run\<close> returns, which are the fields of section 3 of the specification.
\<close>

record dispatch_outcome =
  task :: string
  status :: string
  tools_used :: "string list"
  result :: string

text \<open>
  Modelled from the spec: the class \<^verbatim>\<open>MultiToolAgent\<close> is missing from the sources.
  An agent has its catalog of tools and the selection process, which is external
  (section 4.3, step 1): for a task it yields the ordered tool names with the arguments
  of each, and the direct answer that is the result when no tool is selected.
\<close>

record 'a agent =
  catalog :: "'a registry"
  select :: "string \<Rightarrow> (string \<times> 'a) list \<times> string"

text \<open>
  Modelled from the spec: an invocation counts as successful when the status of its
  envelope is \<^verbatim>\<open>success\<close>; \<open>payload\<close> reads \<^verbatim>\<open>report\<close> or
  \<^verbatim>\<open>error_message\<close>, and is empty when the field is absent.
\<close>

definition failed :: "envelope \<Rightarrow> bool" where
  "failed d = (lookup_field d ''status'' \<noteq> Some ''success'')"

definition payload :: "envelope \<Rightarrow> string \<Rightarrow> string" where
  "payload d key = (case lookup_field d key of Some s \<Rightarrow> s | None \<Rightarrow> [])"

text \<open>
  Modelled from the spec: the dispatcher is missing from the sources. Section 4.3, step 2
  with the recommended policies: the selected tools are looked up and invoked in order;
  the first unregistered name aborts the run with its \<^verbatim>\<open>ToolNotFoundError\<close>, and the
  first invocation that does not succeed aborts the remaining ones. The result is the
  names of the tools invoked, their envelopes, and the lookup error if there was one.
\<close>

fun invoke_all ::
  "'a registry \<Rightarrow> (string \<times> 'a) list \<Rightarrow> string list \<times> envelope list \<times> registry_error option" where
  "invoke_all r [] = ([], [], None)"
| "invoke_all r ((n, arguments) # rest) =
     (case lookup n r of
        Inl e \<Rightarrow> ([], [], Some e)
      | Inr t \<Rightarrow>
          let d = invoke t arguments in
          if failed d then ([n], [d], None)
          else case invoke_all r rest of (used, ds, e) \<Rightarrow> (n # used, d # ds, e))"

text \<open>\<^verbatim>\<open>sep.join(xs)\<close>.\<close>

fun join :: "string \<Rightarrow> string list \<Rightarrow> string" where
  "join sep [] = []"
| "join sep [x] = x"
| "join sep (x # y # zs) = x @ sep @ join sep (y # zs)"

text \<open>
  Modelled from the spec: section 4.3 asks that a missing tool is reported with its
  name; the wording is a choice of this model.
\<close>

definition registry_error_text :: "registry_error \<Rightarrow> string" where
  "registry_error_text e =
     (case e of
        ToolNotFoundError n \<Rightarrow> ''Tool '' @ quoted n @ '' not found''
      | DuplicateToolError n \<Rightarrow> ''Tool '' @ quoted n @ '' already registered'')"

text \<open>
  Modelled from the spec: section 4.3, steps 3 to 5, and section 7. A lookup error is
  surfaced as status \<^verbatim>\<open>error\<close>; otherwise the status is \<^verbatim>\<open>error\<close> when an invoked
  tool did not succeed, and the result is then the first such tool's
  \<^verbatim>\<open>error_message\<close>; otherwise the status is \<^verbatim>\<open>success\<close> and the result is the
  reports of the tools, or the direct answer when no tool was selected.
\<close>

definition run :: "'a agent \<Rightarrow> string \<Rightarrow> dispatch_outcome" where
  "run ag tsk =
     (case select ag tsk of
        (calls, answer) \<Rightarrow>
          (case invoke_all (catalog ag) calls of
             (used, ds, Some e) \<Rightarrow>
               \<lparr>task = tsk, status = ''error'', tools_used = used,
                result = registry_error_text e\<rparr>
           | (used, ds, None) \<Rightarrow>
               (case find failed ds of
                  Some d \<Rightarrow>
                    \<lparr>task = tsk, status = ''error'', tools_used = used,
                     result = payload d ''error_message''\<rparr>
                | None \<Rightarrow>
                    \<lparr>task = tsk, status = ''success'', tools_used = used,
                     result = (if ds = [] then answer
                               else join [CHR 0x0A] (map (\<lambda>d. payload d ''report'') ds))\<rparr>)))"

section \<open>The command line: \<^verbatim>\<open>main\<close> of \<^verbatim>\<open>cli.py\<close>\<close>

text \<open>The namespace \<^verbatim>\<open>parse_args\<close> returns.\<close>

record args =
  arg_task :: "string option"
  arg_config :: "string option"
  arg_log_level :: string
  arg_tool :: "string option"
  arg_list_tools :: bool
  arg_output :: string

text \<open>
  What one call of \<^verbatim>\<open>input\<close> does: it returns a line, or the user interrupts it, or it
  raises an exception (\<^verbatim>\<open>EOFError\<close> at the end of the input) with the given text.
\<close>

datatype input_event = Line string | KeyboardInterrupt | InputError failure

text \<open>What one call of \<^verbatim>\<open>agent.run\<close> does.\<close>

datatype run_result = RunReturned dispatch_outcome | RunInterrupted | RunRaised failure

text \<open>
  The collaborators of \<^verbatim>\<open>main\<close>: the items of \<^verbatim>\<open>registry.get_tool_descriptions()\<close>,
  \<^verbatim>\<open>agent.run\<close> of the agent that \<^verbatim>\<open>create_agent\<close> assembles,
  \<^verbatim>\<open>json.dumps(result, indent=2)\<close>, and whether \<^verbatim>\<open>Config(path)\<close> raises.
  \<^verbatim>\<open>setup_logging\<close> writes nothing to the standard output and is left out.
\<close>

record cli_world =
  tool_descriptions :: "(string \<times> string) list"
  agent_run :: "string \<Rightarrow> run_result"
  json_dumps :: "dispatch_outcome \<Rightarrow> failure + string"
  load_config :: "string \<Rightarrow> failure option"

text \<open>How \<^verbatim>\<open>main\<close> ends: it returns, an exception escapes, or it waits in \<^verbatim>\<open>input\<close>.\<close>

datatype ending = Returned | Uncaught failure | Interrupted | AwaitingInput

text \<open>The standard output is the list of the texts written; \<^verbatim>\<open>print\<close> adds a newline.\<close>

definition print_line :: "string \<Rightarrow> string" where
  "print_line s = s @ [CHR 0x0A]"

text \<open>The lowercase of an ASCII capital letter; other characters are kept.\<close>

definition lower_char :: "char \<Rightarrow> char" where
  "lower_char c =
     (let n = (of_char c :: nat) in if 65 \<le> n \<and> n \<le> 90 then char_of (n + 32) else c)"

text \<open>
  \<^verbatim>\<open>s.lower()\<close>, on the letters \<^verbatim>\<open>A\<close> to \<^verbatim>\<open>Z\<close>. The loop compares the
  result with three words of such letters only, and no other character is lowercased
  to one of their letters.
\<close>

definition lower :: "string \<Rightarrow> string" where
  "lower s = map lower_char s"

definition print_tools :: "cli_world \<Rightarrow> string list" where
  "print_tools w =
     print_line ''Available tools:''
       # map (\<lambda>(n, d). print_line (''  - '' @ n @ '': '' @ d)) (tool_descriptions w)"

text \<open>
  The display of a result, with the line of the task in the one-shot branch only.
  \<^verbatim>\<open>json.dumps\<close> may raise.
\<close>

definition show_result ::
  "cli_world \<Rightarrow> string \<Rightarrow> bool \<Rightarrow> dispatch_outcome \<Rightarrow> failure + string list" where
  "show_result w out with_task r =
     (if out = ''json'' then
        (case json_dumps w r of Inl e \<Rightarrow> Inl e | Inr s \<Rightarrow> Inr [print_line s])
      else
        Inr ((if with_task then [print_line (''Task: '' @ task r)] else [])
             @ [print_line (''Status: '' @ status r),
                print_line (''Tools used: ''
                  @ (if tools_used r \<noteq> [] then join '', '' (tools_used r) else ''None'')),
                print_line (''Result: '' @ result r)]))"

definition exiting :: "string list" where
  "exiting = [print_line (CHR 0x0A # ''Exiting...'')]"

text \<open>
  One turn of the \<^verbatim>\<open>while True\<close> loop after the prompt: the texts written, and
  whether the loop is left (\<^verbatim>\<open>break\<close>).
\<close>

definition loop_body :: "cli_world \<Rightarrow> string \<Rightarrow> input_event \<Rightarrow> string list \<times> bool" where
  "loop_body w out ev =
     (case ev of
        KeyboardInterrupt \<Rightarrow> (exiting, True)
      | InputError msg \<Rightarrow> ([print_line (''Error: '' @ msg)], False)
      | Line tsk \<Rightarrow>
          if lower tsk = ''exit'' \<or> lower tsk = ''quit'' then ([], True)
          else if lower tsk = ''tools'' then (print_tools w, False)
          else
            (case agent_run w tsk of
               RunInterrupted \<Rightarrow> (exiting, True)
             | RunRaised msg \<Rightarrow> ([print_line (''Error: '' @ msg)], False)
             | RunReturned r \<Rightarrow>
                 (case show_result w out False r of
                    Inl msg \<Rightarrow> ([print_line (''Error: '' @ msg)], False)
                  | Inr text \<Rightarrow> (text, False))))"

definition prompt :: string where
  "prompt = CHR 0x0A # ''Enter task: ''"

text \<open>
  The loop on the events of the session: the texts written, how it ends, and the events
  not read. When the events are used up the loop waits in \<^verbatim>\<open>input\<close>.
\<close>

fun repl :: "cli_world \<Rightarrow> string \<Rightarrow> input_event list \<Rightarrow> string list \<times> ending \<times> input_event list" where
  "repl w out [] = ([prompt], AwaitingInput, [])"
| "repl w out (ev # evs) =
     (case loop_body w out ev of
        (text, True) \<Rightarrow> (prompt # text, Returned, evs)
      | (text, False) \<Rightarrow>
          (case repl w out evs of (later, e, rest) \<Rightarrow> (prompt # text @ later, e, rest)))"

definition banner :: "string list" where
  "banner =
     [print_line ''Multi Tool Agent Interactive Mode'',
      print_line ''Type 'exit' or 'quit' to exit'',
      print_line ''Type 'tools' to list available tools'']"

text \<open>\<^verbatim>\<open>if args.config\<close> and \<^verbatim>\<open>if args.task\<close>: the option is given and not empty.\<close>

definition given :: "string option \<Rightarrow> bool" where
  "given x = (case x of None \<Rightarrow> False | Some s \<Rightarrow> s \<noteq> [])"

definition main :: "cli_world \<Rightarrow> args \<Rightarrow> input_event list \<Rightarrow> string list \<times> ending \<times> input_event list" where
  "main w a evs =
     (case (if given (arg_config a) then load_config w (the (arg_config a)) else None) of
        Some e \<Rightarrow> ([], Uncaught e, evs)
      | None \<Rightarrow>
          if arg_list_tools a then (print_tools w, Returned, evs)
          else if given (arg_task a) then
            (case agent_run w (the (arg_task a)) of
               RunInterrupted \<Rightarrow> ([], Interrupted, evs)
             | RunRaised e \<Rightarrow> ([], Uncaught e, evs)
             | RunReturned r \<Rightarrow>
                 (case show_result w (arg_output a) True r of
                    Inl e \<Rightarrow> ([], Uncaught e, evs)
                  | Inr text \<Rightarrow> (text, Returned, evs)))
          else
            (case repl w (arg_output a) evs of
               (text, e, rest) \<Rightarrow> (banner @ text, e, rest)))"

section \<open>Notions used in the statements\<close>

text \<open>
  A well-formed envelope: the status is \<^verbatim>\<open>success\<close> and the fields are exactly
  \<^verbatim>\<open>status\<close> and \<^verbatim>\<open>report\<close>, or the status is \<^verbatim>\<open>error\<close> and the
  fields are exactly \<^verbatim>\<open>status\<close> and \<^verbatim>\<open>error_message\<close>.
\<close>

definition envelope_ok :: "envelope \<Rightarrow> bool" where
  "envelope_ok d =
     ((lookup_field d ''status'' = Some ''success'' \<and> dict_keys d = [''status'', ''report''])
      \<or> (lookup_field d ''status'' = Some ''error''
          \<and> dict_keys d = [''status'', ''error_message'']))"

text \<open>
  The events at which the interactive loop is left: a line that is \<^verbatim>\<open>exit\<close> or
  \<^verbatim>\<open>quit\<close> once lowercased, an interrupt of \<^verbatim>\<open>input\<close>, or an interrupt of
  \<^verbatim>\<open>agent.run\<close> for a line that reaches it.
\<close>

definition leaves :: "cli_world \<Rightarrow> input_event \<Rightarrow> bool" where
  "leaves w ev =
     (case ev of
        Line l \<Rightarrow>
          lower l = ''exit'' \<or> lower l = ''quit''
          \<or> (lower l \<noteq> ''tools'' \<and> agent_run w l = RunInterrupted)
      | KeyboardInterrupt \<Rightarrow> True
      | InputError msg \<Rightarrow> False)"

section \<open>Concrete inputs\<close>

text \<open>
  Inputs on which the model is evaluated. \<open>exact_rt\<close> is an idealised runtime whose
  floating point numbers are exact rationals; \<open>show_1f\<close> writes one rounded to one
  decimal place.
\<close>

fun show_nat :: "nat \<Rightarrow> string" where
  "show_nat n =
     (if n < 10 then [''0123456789'' ! n]
      else show_nat (n div 10) @ [''0123456789'' ! (n mod 10)])"

declare show_nat.simps [simp del]

definition show_1f :: "rat \<Rightarrow> string" where
  "show_1f x =
     (let t = round (x * 10); a = nat \<bar>t\<bar>
      in (if t < 0 then ''-'' else '''') @ show_nat (a div 10) @ ''.'' @ show_nat (a mod 10))"

definition as_number :: "rat json \<Rightarrow> pyexn + (int + rat)" where
  "as_number v =
     (case v of
        JInt n \<Rightarrow> Inr (Inl n)
      | JBool b \<Rightarrow> Inr (Inl (if b then 1 else 0))
      | JFloat x \<Rightarrow> Inr (Inr x)
      | _ \<Rightarrow> Inl TypeError)"

definition exact_rt :: "rat pyrt" where
  "exact_rt =
     \<lparr>py_repr = (\<lambda>v. ''<value>''),
      py_mul = (\<lambda>v k. bind_exn (as_number v) (\<lambda>x.
         case x of Inl n \<Rightarrow> Inr (JInt (n * k)) | Inr q \<Rightarrow> Inr (JFloat (q * of_int k)))),
      py_truediv = (\<lambda>v k. bind_exn (as_number v) (\<lambda>x.
         case x of Inl n \<Rightarrow> Inr (JFloat (of_int n / of_int k))
                 | Inr q \<Rightarrow> Inr (JFloat (q / of_int k)))),
      py_add = (\<lambda>v k. bind_exn (as_number v) (\<lambda>x.
         case x of Inl n \<Rightarrow> Inr (JInt (n + k)) | Inr q \<Rightarrow> Inr (JFloat (q + of_int k)))),
      py_format_1f = (\<lambda>v. bind_exn (as_number v) (\<lambda>x.
         case x of Inl n \<Rightarrow> Inr (show_1f (of_int n)) | Inr q \<Rightarrow> Inr (show_1f q))),
      float_nonzero = (\<lambda>x. x \<noteq> 0)\<rparr>"

text \<open>
  Three networks: one that answers the three services, one that is down, and one whose
  geocoder knows no place.
\<close>

definition ok_response :: "'f json \<Rightarrow> 'f response" where
  "ok_response body = \<lparr>raise_for_status = None, json_body = Inr body\<rparr>"

definition sample_net :: "rat network" where
  "sample_net made req =
     (if url req = ''https://api.openweathermap.org/data/2.5/weather'' then
        Inr (ok_response (JObj [(''main'', JObj [(''temp'', JInt 20)]),
                                (''weather'', JArr [JObj [(''description'', JStr ''clear sky'')]])]))
      else if url req = ''https://api.openweathermap.org/geo/1.0/direct'' then
        Inr (ok_response (JArr [JObj [(''lat'', JFloat (4885 / 100)), (''lon'', JFloat (235 / 100))]]))
      else if url req = ''https://api.timezonedb.com/v2.1/get-time-zone'' then
        Inr (ok_response (JObj [(''status'', JStr ''OK''),
                                (''formatted'', JStr ''2024-05-01 12:00:00''),
                                (''zoneName'', JStr ''Europe/Paris'')]))
      else Inl (RequestException ''Connection refused''))"



definition sample_env :: environ where
  "sample_env = [''WEATHER_API_KEY'' \<mapsto> ''w-key'', ''TIMEZONE_API_KEY'' \<mapsto> ''t-key'']"

definition timezone_only_env :: environ where
  "timezone_only_env = [''TIMEZONE_API_KEY'' \<mapsto> ''t-key'']"


text \<open>
  Tools with canned underlying functions: one succeeds, one returns an error envelope,
  one raises.
\<close>

definition weather_stub :: "string tool" where
  "weather_stub =
     \<lparr>name = ''get_weather'',
      func = (\<lambda>city. Inr (success_envelope ''clear sky, 18.0C'')),
      description = ''Retrieves the current weather report for a specified city.''\<rparr>"

definition time_stub :: "string tool" where
  "time_stub =
     \<lparr>name = ''get_current_time'',
      func = (\<lambda>city. Inr (error_envelope ''Timezone API key not found in environment variables.'')),
      description = ''Returns the current time in a specified city.''\<rparr>"

definition raising_stub :: "string tool" where
  "raising_stub =
     \<lparr>name = ''get_weather'',
      func = (\<lambda>city. Inl ''list indices must be integers or slices, not str''),
      description = ''Retrieves the current weather report for a specified city.''\<rparr>"

definition sample_registry :: "string registry" where
  "sample_registry = \<lparr>tools = [(''get_weather'', weather_stub), (''get_current_time'', time_stub)]\<rparr>"

text \<open>An agent whose selection process picks the given tools for every task.\<close>

definition sample_agent :: "string registry \<Rightarrow> string list \<Rightarrow> string agent" where
  "sample_agent r names =
     \<lparr>catalog = r, select = (\<lambda>tsk. (map (\<lambda>n. (n, ''Paris'')) names, ''No tool is needed.''))\<rparr>"


text \<open>
  A world for the text output: \<^verbatim>\<open>agent.run\<close> is the dispatcher with the weather tool.
\<close>

definition text_world :: cli_world where
  "text_world =
     \<lparr>tool_descriptions = get_tool_descriptions sample_registry,
      agent_run = (\<lambda>tsk. RunReturned (run (sample_agent sample_registry [''get_weather'']) tsk)),
      json_dumps = (\<lambda>r. Inl ''Object is not JSON serializable''),
      load_config = (\<lambda>path. None)\<rparr>"

text \<open>The command line without a task, with or without \<^verbatim>\<open>--list-tools\<close>.\<close>

definition no_task_args :: "bool \<Rightarrow> args" where
  "no_task_args flag =
     \<lparr>arg_task = None, arg_config = None, arg_log_level = ''INFO'', arg_tool = None,
      arg_list_tools = flag, arg_output = ''text''\<rparr>"

section \<open>Auxiliary facts\<close>

lemma success_envelope_ok: "envelope_ok (success_envelope r)"
  by (simp add: envelope_ok_def success_envelope_def lookup_field_def dict_keys_def)

lemma error_envelope_ok: "envelope_ok (error_envelope m)"
  by (simp add: envelope_ok_def error_envelope_def lookup_field_def dict_keys_def)

lemma error_envelope_fields:
  "lookup_field (error_envelope m) ''status'' = Some ''error''"
  "lookup_field (error_envelope m) ''error_message'' = Some m"
  by (simp_all add: error_envelope_def lookup_field_def)

lemma success_envelope_status:
  "lookup_field (success_envelope r) ''status'' = Some ''success''"
  by (simp add: success_envelope_def lookup_field_def)

lemma bind_exn_Inr:
  "bind_exn m k = Inr y \<longleftrightarrow> (\<exists>x. m = Inr x \<and> k x = Inr y)"
  by (cases m) (simp_all add: bind_exn_def)

lemma weather_try_Inr:
  "weather_try rt net req city = Inr d \<Longrightarrow> \<exists>r. d = success_envelope r"
  unfolding weather_try_def by (auto simp: bind_exn_Inr)

lemma weather_except_Inr:
  assumes "weather_except city r = Inr d"
  shows "(r = Inr d)
       \<or> (\<exists>c. r = Inl (RequestException c)
            \<and> d = error_envelope (''Error fetching weather for '' @ quoted city @ '': '' @ c))
       \<or> (\<exists>c. (r = Inl (KeyError c) \<or> r = Inl (IndexError c))
            \<and> d = error_envelope (''Error parsing weather data for '' @ quoted city @ '': '' @ c))"
  using assms unfolding weather_except_def
  by (auto split: sum.splits pyexn.splits)

lemma time_except_Inr:
  assumes "time_except city r = Inr d"
  shows "(r = Inr d)
       \<or> (\<exists>c. r = Inl (RequestException c)
            \<and> d = error_envelope (''Error fetching time data for '' @ quoted city @ '': '' @ c))
       \<or> (\<exists>c. (r = Inl (KeyError c) \<or> r = Inl (IndexError c))
            \<and> d = error_envelope (''Error parsing time data for '' @ quoted city @ '': '' @ c))"
  using assms unfolding time_except_def
  by (auto split: sum.splits pyexn.splits)

lemma geocode_step_Inr:
  "geocode_step rt net req city = Inr (Inl d) \<Longrightarrow>
     d = error_envelope (''Could not find location data for '' @ quoted city @ ''.'')"
  unfolding geocode_step_def by (auto simp: bind_exn_Inr split: if_splits)

lemma timezone_step_Inr:
  "timezone_step rt net made req city = Inr d \<Longrightarrow>
     (\<exists>r. d = success_envelope r)
     \<or> (\<exists>c. d = error_envelope (''Error fetching timezone data: '' @ c))"
  unfolding timezone_step_def by (auto simp: bind_exn_Inr split: if_splits)

lemma time_try_Inr:
  assumes "fst (time_try rt env net city k) = Inr d"
  shows "(\<exists>r. d = success_envelope r)
       \<or> (key_missing (env ''WEATHER_API_KEY'') \<and> d = error_envelope
            ''Weather API key not found in environment variables (needed for geocoding).'')
       \<or> d = error_envelope (''Could not find location data for '' @ quoted city @ ''.'')
       \<or> (\<exists>c. d = error_envelope (''Error fetching timezone data: '' @ c))"
proof (cases "key_missing (env ''WEATHER_API_KEY'')")
  case True
  with assms show ?thesis by (simp add: time_try_def Let_def)
next
  case False
  let ?g = "geocode_step rt net (geocode_request city (the (env ''WEATHER_API_KEY''))) city"
  show ?thesis
  proof (cases ?g)
    case (Inl e)
    with assms False show ?thesis by (simp add: time_try_def Let_def)
  next
    case (Inr x)
    show ?thesis
    proof (cases x)
      case (Inl d')
      with Inr assms False have "d = d'" by (simp add: time_try_def Let_def)
      with Inr Inl geocode_step_Inr[of rt net _ city d'] show ?thesis by simp
    next
      case (Inr ll)
      obtain lat lon where ll: "ll = (lat, lon)" by (cases ll)
      with \<open>?g = Inr x\<close> Inr assms False
      have "timezone_step rt net [geocode_request city (the (env ''WEATHER_API_KEY''))]
              (timezone_request k lat lon) city = Inr d"
        by (simp add: time_try_def Let_def)
      from timezone_step_Inr[OF this] show ?thesis by blast
    qed
  qed
qed

lemma get_weather_cases:
  assumes "fst (get_weather rt env net city) = Inr d"
  shows "(\<exists>r. d = success_envelope r)
       \<or> (key_missing (env ''WEATHER_API_KEY'')
            \<and> d = error_envelope ''Weather API key not found in environment variables.'')
       \<or> (\<exists>c. weather_try rt net (weather_request city (the (env ''WEATHER_API_KEY''))) city
                 = Inl (RequestException c)
            \<and> d = error_envelope (''Error fetching weather for '' @ quoted city @ '': '' @ c))
       \<or> (\<exists>c. (weather_try rt net (weather_request city (the (env ''WEATHER_API_KEY''))) city
                   = Inl (KeyError c)
                \<or> weather_try rt net (weather_request city (the (env ''WEATHER_API_KEY''))) city
                   = Inl (IndexError c))
            \<and> d = error_envelope (''Error parsing weather data for '' @ quoted city @ '': '' @ c))"
  using assms unfolding get_weather_def Let_def
  by (auto split: if_splits dest!: weather_except_Inr dest: weather_try_Inr)

lemma get_current_time_cases:
  assumes "fst (get_current_time rt env net city) = Inr d"
  shows "(\<exists>r. d = success_envelope r)
       \<or> (key_missing (env ''TIMEZONE_API_KEY'')
            \<and> d = error_envelope ''Timezone API key not found in environment variables.'')
       \<or> (key_missing (env ''WEATHER_API_KEY'') \<and> d = error_envelope
            ''Weather API key not found in environment variables (needed for geocoding).'')
       \<or> d = error_envelope (''Could not find location data for '' @ quoted city @ ''.'')
       \<or> (\<exists>c. d = error_envelope (''Error fetching timezone data: '' @ c))
       \<or> (\<exists>c. fst (time_try rt env net city (the (env ''TIMEZONE_API_KEY'')))
                 = Inl (RequestException c)
            \<and> d = error_envelope (''Error fetching time data for '' @ quoted city @ '': '' @ c))
       \<or> (\<exists>c. (fst (time_try rt env net city (the (env ''TIMEZONE_API_KEY''))) = Inl (KeyError c)
                \<or> fst (time_try rt env net city (the (env ''TIMEZONE_API_KEY'')))
                   = Inl (IndexError c))
            \<and> d = error_envelope (''Error parsing time data for '' @ quoted city @ '': '' @ c))"
proof (cases "key_missing (env ''TIMEZONE_API_KEY'')")
  case True
  with assms show ?thesis by (simp add: get_current_time_def Let_def)
next
  case False
  obtain r made where tt: "time_try rt env net city (the (env ''TIMEZONE_API_KEY'')) = (r, made)"
    by (cases "time_try rt env net city (the (env ''TIMEZONE_API_KEY''))")
  with assms False have "time_except city r = Inr d"
    by (simp add: get_current_time_def Let_def)
  from time_except_Inr[OF this] show ?thesis
  proof (elim disjE exE conjE)
    assume "r = Inr d"
    with tt have "fst (time_try rt env net city (the (env ''TIMEZONE_API_KEY''))) = Inr d" by simp
    from time_try_Inr[OF this] show ?thesis by blast
  qed (use tt in auto)
qed

lemma contains_self: "contains s s"
  by (simp add: contains_def)

lemma contains_append_right: "contains s sub \<Longrightarrow> contains (p @ s) sub"
  unfolding contains_def sublist_def by (metis append_assoc)

lemma contains_append_left: "contains s sub \<Longrightarrow> contains (s @ q) sub"
  unfolding contains_def sublist_def by (metis append_assoc)

lemma contains_quoted: "contains (quoted s) s"
  unfolding contains_def quoted_def sublist_def by (metis append_Cons append_Nil)


lemma register_all_tools:
  "register_all ts r0 = Inr r \<Longrightarrow>
     tools r = tools r0 @ map (\<lambda>t. (name t, t)) ts
     \<and> distinct (map name ts)
     \<and> set (map name ts) \<inter> set (map fst (tools r0)) = {}"
proof (induction ts arbitrary: r0)
  case Nil
  then show ?case by simp
next
  case (Cons t ts)
  from Cons.prems obtain r1 where r1: "register t r0 = Inr r1" and rest: "register_all ts r1 = Inr r"
    by (auto split: sum.splits)
  from r1 have fresh: "name t \<notin> set (map fst (tools r0))" and t1: "tools r1 = tools r0 @ [(name t, t)]"
    by (auto simp: register_def split: if_splits)
  from Cons.IH[OF rest] t1 fresh show ?case by auto
qed

lemma register_all_empty:
  assumes "register_all ts empty_registry = Inr r"
  shows "tools r = map (\<lambda>t. (name t, t)) ts" and "distinct (map name ts)"
  using register_all_tools[OF assms] by (simp_all add: empty_registry_def)

section \<open>The claims\<close>

text \<open>
  Claim C1. Every dictionary that \<^verbatim>\<open>get_weather\<close> or \<^verbatim>\<open>get_current_time\<close>
  returns, for every city, environment, network and runtime, has status
  \<^verbatim>\<open>success\<close> with exactly the fields \<^verbatim>\<open>status\<close> and \<^verbatim>\<open>report\<close>, or status
  \<^verbatim>\<open>error\<close> with exactly the fields \<^verbatim>\<open>status\<close> and \<^verbatim>\<open>error_message\<close>.
\<close>

theorem tool_result_envelope:
  "(fst (get_weather rt env net city) = Inr d \<longrightarrow> envelope_ok d)
   \<and> (fst (get_current_time rt env net city) = Inr d' \<longrightarrow> envelope_ok d')"
proof (intro conjI impI)
  assume "fst (get_weather rt env net city) = Inr d"
  from get_weather_cases[OF this] show "envelope_ok d"
    by (auto simp: success_envelope_ok error_envelope_ok)
next
  assume "fst (get_current_time rt env net city) = Inr d'"
  from get_current_time_cases[OF this] show "envelope_ok d'"
    by (auto simp: success_envelope_ok error_envelope_ok)
qed

theorem tool_result_envelope_witness:
  "fst (get_weather exact_rt sample_env sample_net ''Paris'')
     = Inr (success_envelope ''The weather in Paris is clear sky with a temperature of 20.0 degrees Celsius (68.0 degrees Fahrenheit).'')
   \<and> fst (get_current_time exact_rt sample_env sample_net ''Paris'')
     = Inr (success_envelope ''The current time in Paris is 2024-05-01 12:00:00 (Europe/Paris)'')
   \<and> envelope_ok (success_envelope ''The weather in Paris is clear sky with a temperature of 20.0 degrees Celsius (68.0 degrees Fahrenheit).'')
   \<and> envelope_ok (success_envelope ''The current time in Paris is 2024-05-01 12:00:00 (Europe/Paris)'')"
proof -
  have w: "fst (get_weather exact_rt sample_env sample_net ''Paris'')
     = Inr (success_envelope ''The weather in Paris is clear sky with a temperature of 20.0 degrees Celsius (68.0 degrees Fahrenheit).'')"
    by code_simp
  have t: "fst (get_current_time exact_rt sample_env sample_net ''Paris'')
     = Inr (success_envelope ''The current time in Paris is 2024-05-01 12:00:00 (Europe/Paris)'')"
    by code_simp
  from tool_result_envelope[of exact_rt sample_env sample_net "''Paris''"] w t
  show ?thesis by simp
qed

text \<open>
  Claim C3. When \<^verbatim>\<open>WEATHER_API_KEY\<close> is unset, \<^verbatim>\<open>get_weather\<close> returns an error
  envelope whose message contains \<^verbatim>\<open>API key not found\<close> and makes no request; when
  \<^verbatim>\<open>TIMEZONE_API_KEY\<close> is unset, so does \<^verbatim>\<open>get_current_time\<close>.
\<close>

theorem missing_key_error:
  "(env ''WEATHER_API_KEY'' = None \<longrightarrow>
      (\<exists>m. get_weather rt env net city = (Inr (error_envelope m), [])
           \<and> lookup_field (error_envelope m) ''status'' = Some ''error''
           \<and> lookup_field (error_envelope m) ''error_message'' = Some m
           \<and> contains m ''API key not found''))
   \<and> (env ''TIMEZONE_API_KEY'' = None \<longrightarrow>
      (\<exists>m. get_current_time rt env net city = (Inr (error_envelope m), [])
           \<and> lookup_field (error_envelope m) ''status'' = Some ''error''
           \<and> lookup_field (error_envelope m) ''error_message'' = Some m
           \<and> contains m ''API key not found''))"
proof (intro conjI impI)
  have c: "contains ''Weather API key not found in environment variables.'' ''API key not found''"
    unfolding contains_def by code_simp
  assume "env ''WEATHER_API_KEY'' = None"
  then have "get_weather rt env net city
      = (Inr (error_envelope ''Weather API key not found in environment variables.''), [])"
    by (simp add: get_weather_def key_missing_def)
  with c show "\<exists>m. get_weather rt env net city = (Inr (error_envelope m), [])
           \<and> lookup_field (error_envelope m) ''status'' = Some ''error''
           \<and> lookup_field (error_envelope m) ''error_message'' = Some m
           \<and> contains m ''API key not found''"
    using error_envelope_fields by blast
next
  have c: "contains ''Timezone API key not found in environment variables.'' ''API key not found''"
    unfolding contains_def by code_simp
  assume "env ''TIMEZONE_API_KEY'' = None"
  then have "get_current_time rt env net city
      = (Inr (error_envelope ''Timezone API key not found in environment variables.''), [])"
    by (simp add: get_current_time_def key_missing_def)
  with c show "\<exists>m. get_current_time rt env net city = (Inr (error_envelope m), [])
           \<and> lookup_field (error_envelope m) ''status'' = Some ''error''
           \<and> lookup_field (error_envelope m) ''error_message'' = Some m
           \<and> contains m ''API key not found''"
    using error_envelope_fields by blast
qed

theorem missing_key_error_witness:
  "(Map.empty :: environ) ''WEATHER_API_KEY'' = None
   \<and> (Map.empty :: environ) ''TIMEZONE_API_KEY'' = None
   \<and> snd (get_weather exact_rt Map.empty sample_net ''Paris'') = []
   \<and> snd (get_current_time exact_rt Map.empty sample_net ''Paris'') = []"
  using missing_key_error[of Map.empty exact_rt sample_net "''Paris''"]
  by auto




text \<open>
  With both keys unset, \<^verbatim>\<open>get_current_time\<close> stops at the check of the time zone
  key, and its message does not mention geocoding.
\<close>

theorem time_without_keys_no_geocoding_text:
  "(Map.empty :: environ) ''WEATHER_API_KEY'' = None
   \<and> fst (get_current_time exact_rt Map.empty sample_net ''Paris'')
     = Inr (error_envelope ''Timezone API key not found in environment variables.'')
   \<and> lookup_field (error_envelope ''Timezone API key not found in environment variables.'')
        ''error_message''
     = Some ''Timezone API key not found in environment variables.''
   \<and> \<not> contains ''Timezone API key not found in environment variables.'' ''geocoding''"
proof (intro conjI)
  show "fst (get_current_time exact_rt Map.empty sample_net ''Paris'')
     = Inr (error_envelope ''Timezone API key not found in environment variables.'')"
    by (simp add: get_current_time_def key_missing_def)
  show "\<not> contains ''Timezone API key not found in environment variables.'' ''geocoding''"
    unfolding contains_def by code_simp
qed (simp_all add: error_envelope_fields)

text \<open>
  Claim C9, amended. When \<^verbatim>\<open>WEATHER_API_KEY\<close> is unset, \<^verbatim>\<open>get_current_time\<close>
  returns an error envelope for every city and makes no request, so it never succeeds;
  the message is the one about geocoding when \<^verbatim>\<open>TIMEZONE_API_KEY\<close> is set and not
  empty, and the one about the time zone key otherwise.
\<close>

theorem time_needs_weather_key:
  assumes "env ''WEATHER_API_KEY'' = None"
  shows "\<exists>m. get_current_time rt env net city = (Inr (error_envelope m), [])
           \<and> lookup_field (error_envelope m) ''status'' = Some ''error''
           \<and> m = (if key_missing (env ''TIMEZONE_API_KEY'')
                  then ''Timezone API key not found in environment variables.''
                  else ''Weather API key not found in environment variables (needed for geocoding).'')"
  using assms
  by (simp add: get_current_time_def time_try_def time_except_def key_missing_def
        error_envelope_fields Let_def)

theorem time_needs_weather_key_witness:
  "timezone_only_env ''WEATHER_API_KEY'' = None
   \<and> get_current_time exact_rt timezone_only_env sample_net ''Paris''
     = (Inr (error_envelope
          ''Weather API key not found in environment variables (needed for geocoding).''), [])"
proof -
  have h: "timezone_only_env ''WEATHER_API_KEY'' = None"
    by (simp add: timezone_only_env_def)
  have k: "\<not> key_missing (timezone_only_env ''TIMEZONE_API_KEY'')"
    by (simp add: timezone_only_env_def key_missing_def)
  from time_needs_weather_key[where env = timezone_only_env and rt = exact_rt
      and net = sample_net and city = "''Paris''"] h k
  show ?thesis by auto
qed

text \<open>
  Claim C2. When the underlying function of a tool raises, \<^verbatim>\<open>invoke\<close> returns an
  envelope with status \<^verbatim>\<open>error\<close> whose message is not empty and contains the name
  of the tool, and the reason of the failure.
\<close>

theorem invoke_catches:
  assumes "func t arguments = Inl reason"
  shows "\<exists>m. invoke t arguments = error_envelope m
           \<and> lookup_field (invoke t arguments) ''status'' = Some ''error''
           \<and> lookup_field (invoke t arguments) ''error_message'' = Some m
           \<and> m \<noteq> [] \<and> contains m (name t) \<and> contains m reason"
proof -
  let ?m = "''Error executing tool '' @ quoted (name t) @ '': '' @ reason"
  have "invoke t arguments = error_envelope ?m"
    using assms by (simp add: invoke_def)
  moreover have "contains ?m (name t)"
    by (intro contains_append_right contains_append_left contains_quoted)
  moreover have "contains ?m reason"
    by (intro contains_append_right contains_self)
  ultimately show ?thesis
    by (auto simp: error_envelope_fields)
qed

theorem invoke_catches_witness:
  "func raising_stub ''Paris'' = Inl ''list indices must be integers or slices, not str''
   \<and> lookup_field (invoke raising_stub ''Paris'') ''status'' = Some ''error''
   \<and> contains (the (lookup_field (invoke raising_stub ''Paris'') ''error_message'')) ''get_weather''"
proof -
  have h: "func raising_stub ''Paris'' = Inl ''list indices must be integers or slices, not str''"
    by (simp add: raising_stub_def)
  have n: "name raising_stub = ''get_weather''"
    by (simp add: raising_stub_def)
  from invoke_catches[OF h] h n show ?thesis by auto
qed

text \<open>
  Claim C5. After the tools \<open>ts\<close> have been registered in an empty registry, looking
  up the name of any of them returns that tool, unchanged.
\<close>

theorem lookup_registered:
  assumes "register_all ts empty_registry = Inr r" and "t \<in> set ts"
  shows "lookup (name t) r = Inr t"
proof -
  from register_all_empty[OF assms(1)]
  have tl: "tools r = map (\<lambda>t. (name t, t)) ts" and d: "distinct (map name ts)" .
  have "distinct (map fst (tools r))" using tl d by (simp add: comp_def)
  moreover have "(name t, t) \<in> set (tools r)" using tl assms(2) by auto
  ultimately have "map_of (tools r) (name t) = Some t" by simp
  then show ?thesis by (simp add: lookup_def)
qed

theorem lookup_registered_witness:
  "register_all [weather_stub, time_stub] empty_registry = Inr sample_registry
   \<and> time_stub \<in> set [weather_stub, time_stub]
   \<and> lookup (name time_stub) sample_registry = Inr time_stub"
proof -
  have h: "register_all [weather_stub, time_stub] empty_registry = Inr sample_registry"
    by (simp add: register_def empty_registry_def sample_registry_def weather_stub_def time_stub_def)
  have m: "time_stub \<in> set [weather_stub, time_stub]" by simp
  from lookup_registered[OF h m] h m show ?thesis by simp
qed

text \<open>
  Claim C6. After the tools \<open>ts\<close> have been registered in an empty registry, looking
  up a name that is the name of none of them fails with \<^verbatim>\<open>ToolNotFoundError\<close>.
\<close>

theorem lookup_unregistered:
  assumes "register_all ts empty_registry = Inr r" and "n \<notin> set (map name ts)"
  shows "lookup n r = Inl (ToolNotFoundError n)"
proof -
  from register_all_empty[OF assms(1)] have "map fst (tools r) = map name ts"
    by (simp add: comp_def)
  with assms(2) have "map_of (tools r) n = None"
    by (metis map_of_eq_None_iff set_map)
  then show ?thesis by (simp add: lookup_def)
qed

theorem lookup_unregistered_witness:
  "register_all [weather_stub, time_stub] empty_registry = Inr sample_registry
   \<and> ''get_news'' \<notin> set (map name [weather_stub, time_stub])
   \<and> lookup ''get_news'' sample_registry = Inl (ToolNotFoundError ''get_news'')"
proof -
  have h: "register_all [weather_stub, time_stub] empty_registry = Inr sample_registry"
    by (simp add: register_def empty_registry_def sample_registry_def weather_stub_def time_stub_def)
  have m: "''get_news'' \<notin> set (map name [weather_stub, time_stub])"
    by (simp add: weather_stub_def time_stub_def)
  from lookup_unregistered[OF h m] h m show ?thesis by simp
qed

lemma invoke_all_failed:
  "invoke_all r calls = (used, ds, err) \<Longrightarrow> d \<in> set ds \<Longrightarrow> failed d \<Longrightarrow>
     err = None \<and> find failed ds = Some d"
proof (induction r calls arbitrary: used ds err rule: invoke_all.induct)
  case (1 r)
  then show ?case by simp
next
  case (2 r n arguments rest)
  show ?case
  proof (cases "lookup n r")
    case (Inl e)
    with "2.prems" show ?thesis by simp
  next
    case (Inr t)
    show ?thesis
    proof (cases "failed (invoke t arguments)")
      case True
      with Inr "2.prems" show ?thesis by (auto simp: Let_def)
    next
      case False
      obtain used' ds' err' where rec: "invoke_all r rest = (used', ds', err')"
        by (cases "invoke_all r rest")
      with Inr False "2.prems"(1) have ds: "ds = invoke t arguments # ds'" and e: "err = err'"
        by (auto simp: Let_def)
      with "2.prems" False have "d \<in> set ds'" by auto
      from "2.IH"[OF Inr refl False rec this "2.prems"(3)] ds e False
      show ?thesis by simp
    qed
  qed
qed

lemma find_failed_None: "(\<forall>d\<in>set ds. \<not> failed d) \<Longrightarrow> find failed ds = None"
  by (simp add: find_None_iff)

text \<open>
  In the modelled dispatcher, a run that selects the weather tool and then an
  unregistered name: the only tool invoked returned \<^verbatim>\<open>success\<close>, and the status of
  the outcome is \<^verbatim>\<open>error\<close>, as section 7 of the specification asks for a
  \<^verbatim>\<open>ToolNotFoundError\<close>.
\<close>

theorem run_unregistered_tool:
  "invoke_all (catalog (sample_agent sample_registry [''get_weather'', ''get_news'']))
       (fst (select (sample_agent sample_registry [''get_weather'', ''get_news''])
               ''Weather and news in Paris?''))
     = ([''get_weather''], [success_envelope ''clear sky, 18.0C''],
        Some (ToolNotFoundError ''get_news''))
   \<and> lookup_field (success_envelope ''clear sky, 18.0C'') ''status'' = Some ''success''
   \<and> status (run (sample_agent sample_registry [''get_weather'', ''get_news''])
         ''Weather and news in Paris?'') = ''error''"
  by (simp add: sample_agent_def sample_registry_def run_def lookup_def invoke_def failed_def
        weather_stub_def time_stub_def success_envelope_def lookup_field_def)

text \<open>
  The aggregation of the modelled dispatcher. For every run: if no selected name was
  unregistered and every invoked tool returned status \<^verbatim>\<open>success\<close>, the status of
  the outcome is \<^verbatim>\<open>success\<close>; if an invoked tool returned status \<^verbatim>\<open>error\<close>,
  the status of the outcome is \<^verbatim>\<open>error\<close> and its result contains the
  \<^verbatim>\<open>error_message\<close> of that tool.
\<close>

theorem run_aggregate:
  assumes "invoke_all (catalog ag) (fst (select ag tsk)) = (used, ds, err)"
  shows "(err = None \<and> (\<forall>d\<in>set ds. lookup_field d ''status'' = Some ''success'')
            \<longrightarrow> status (run ag tsk) = ''success'')
       \<and> (\<forall>d\<in>set ds. \<forall>m. lookup_field d ''status'' = Some ''error''
                             \<and> lookup_field d ''error_message'' = Some m
            \<longrightarrow> status (run ag tsk) = ''error'' \<and> contains (result (run ag tsk)) m)"
proof -
  have ok: "status (run ag tsk) = ''success''"
    if a: "err = None \<and> (\<forall>d\<in>set ds. lookup_field d ''status'' = Some ''success'')"
  proof -
    from a have "find failed ds = None"
      by (intro find_failed_None) (simp add: failed_def)
    with a assms show ?thesis
      by (cases "select ag tsk") (simp add: run_def)
  qed
  have bad: "status (run ag tsk) = ''error'' \<and> contains (result (run ag tsk)) m"
    if d: "d \<in> set ds"
      and e: "lookup_field d ''status'' = Some ''error'' \<and> lookup_field d ''error_message'' = Some m"
    for d m
  proof -
    from e have "failed d" by (simp add: failed_def)
    from invoke_all_failed[OF assms d this] have n: "err = None" and f: "find failed ds = Some d"
      by simp_all
    from e have "payload d ''error_message'' = m" by (simp add: payload_def)
    with n f assms show ?thesis
      by (cases "select ag tsk") (simp add: run_def contains_self)
  qed
  from ok bad show ?thesis by blast
qed

theorem run_aggregate_witness:
  "invoke_all (catalog (sample_agent sample_registry [''get_weather'', ''get_current_time'']))
       (fst (select (sample_agent sample_registry [''get_weather'', ''get_current_time''])
               ''Weather and time in Paris?''))
     = ([''get_weather'', ''get_current_time''],
        [success_envelope ''clear sky, 18.0C'',
         error_envelope ''Timezone API key not found in environment variables.''], None)
   \<and> status (run (sample_agent sample_registry [''get_weather'', ''get_current_time''])
         ''Weather and time in Paris?'') = ''error''
   \<and> invoke_all (catalog (sample_agent sample_registry [''get_weather'']))
       (fst (select (sample_agent sample_registry [''get_weather'']) ''Weather in Paris?''))
     = ([''get_weather''], [success_envelope ''clear sky, 18.0C''], None)
   \<and> status (run (sample_agent sample_registry [''get_weather'']) ''Weather in Paris?'')
     = ''success''"
proof -
  let ?a2 = "sample_agent sample_registry [''get_weather'', ''get_current_time'']"
  let ?a1 = "sample_agent sample_registry [''get_weather'']"
  have h2: "invoke_all (catalog ?a2) (fst (select ?a2 ''Weather and time in Paris?''))
     = ([''get_weather'', ''get_current_time''],
        [success_envelope ''clear sky, 18.0C'',
         error_envelope ''Timezone API key not found in environment variables.''], None)"
    by (simp add: sample_agent_def sample_registry_def lookup_def invoke_def failed_def
          weather_stub_def time_stub_def success_envelope_def error_envelope_def lookup_field_def)
  have h1: "invoke_all (catalog ?a1) (fst (select ?a1 ''Weather in Paris?''))
     = ([''get_weather''], [success_envelope ''clear sky, 18.0C''], None)"
    by (simp add: sample_agent_def sample_registry_def lookup_def invoke_def failed_def
          weather_stub_def time_stub_def success_envelope_def error_envelope_def lookup_field_def)
  from run_aggregate[OF h2] run_aggregate[OF h1] h1 h2
  show ?thesis
    by (simp add: success_envelope_status error_envelope_fields)
qed

lemma loop_body_leaves: "snd (loop_body w out ev) = leaves w ev"
  by (cases ev)
     (auto simp: loop_body_def leaves_def split: run_result.splits sum.splits)

lemma repl_step:
  "repl w out (ev # evs) =
     (if leaves w ev then (prompt # fst (loop_body w out ev), Returned, evs)
      else (prompt # fst (loop_body w out ev) @ fst (repl w out evs), snd (repl w out evs)))"
  using loop_body_leaves[of w out ev]
  by (cases "loop_body w out ev"; cases "repl w out evs") auto

lemma repl_ending:
  "fst (snd (repl w out evs)) = (if \<exists>ev\<in>set evs. leaves w ev then Returned else AwaitingInput)"
  by (induction evs) (simp_all add: repl_step del: repl.simps(2))

lemma repl_rest:
  "snd (snd (repl w out evs)) = tl (dropWhile (\<lambda>ev. \<not> leaves w ev) evs)"
  by (induction evs) (simp_all add: repl_step del: repl.simps(2))

text \<open>
  Started with \<^verbatim>\<open>--list-tools\<close> and no task, \<^verbatim>\<open>main\<close> lists the tools and returns
  without reading a line.
\<close>

theorem main_list_tools_without_task:
  "arg_task (no_task_args True) = None
   \<and> main text_world (no_task_args True) [Line ''What is the weather in Paris?'']
     = ([print_line ''Available tools:'',
         print_line ''  - get_weather: Retrieves the current weather report for a specified city.'',
         print_line ''  - get_current_time: Returns the current time in a specified city.''],
        Returned, [Line ''What is the weather in Paris?''])"
  by (simp add: main_def no_task_args_def given_def text_world_def print_tools_def
        get_tool_descriptions_def sample_registry_def weather_stub_def time_stub_def)

text \<open>
  Claim C8, amended. Started with no task, without \<^verbatim>\<open>--list-tools\<close> and with a
  configuration that loads, \<^verbatim>\<open>main\<close> writes the banner and enters the interactive
  loop. The loop ends exactly when an event of the session leaves it (a line that is
  \<^verbatim>\<open>exit\<close> or \<^verbatim>\<open>quit\<close> once lowercased, or a keyboard interrupt), at the first
  such event; until then it waits for input, and any other event is processed and the
  loop continues.
\<close>

theorem interactive_loop:
  assumes "\<not> given (arg_task a)" and "\<not> arg_list_tools a"
    and "given (arg_config a) \<longrightarrow> load_config w (the (arg_config a)) = None"
  shows "main w a evs = (banner @ fst (repl w (arg_output a) evs), snd (repl w (arg_output a) evs))
       \<and> (fst (snd (repl w out evs)) = Returned \<longleftrightarrow> (\<exists>ev\<in>set evs. leaves w ev))
       \<and> (fst (snd (repl w out evs)) \<noteq> Returned \<longrightarrow> fst (snd (repl w out evs)) = AwaitingInput)
       \<and> snd (snd (repl w out evs)) = tl (dropWhile (\<lambda>ev. \<not> leaves w ev) evs)
       \<and> (\<not> leaves w ev \<longrightarrow>
            repl w out (ev # evs)
              = (prompt # fst (loop_body w out ev) @ fst (repl w out evs), snd (repl w out evs)))"
proof -
  have m: "main w a evs = (banner @ fst (repl w (arg_output a) evs), snd (repl w (arg_output a) evs))"
    using assms by (cases "repl w (arg_output a) evs") (auto simp: main_def)
  show ?thesis
    using m repl_ending[of w out evs] repl_rest[of w out evs] repl_step[of w out ev evs]
    by simp
qed

theorem interactive_loop_witness:
  "\<not> given (arg_task (no_task_args False)) \<and> \<not> arg_list_tools (no_task_args False)
   \<and> \<not> given (arg_config (no_task_args False))
   \<and> leaves text_world (Line ''QUIT'')
   \<and> snd (main text_world (no_task_args False)
            [Line ''tools'', Line ''What is the weather in Paris?'', Line ''QUIT'', Line ''exit''])
     = (Returned, [Line ''exit''])"
proof -
  have a: "\<not> given (arg_task (no_task_args False))" "\<not> arg_list_tools (no_task_args False)"
    "\<not> given (arg_config (no_task_args False))"
    by (simp_all add: no_task_args_def given_def)
  have r: "snd (repl text_world ''text''
            [Line ''tools'', Line ''What is the weather in Paris?'', Line ''QUIT'', Line ''exit''])
     = (Returned, [Line ''exit''])"
    by code_simp
  have l: "leaves text_world (Line ''QUIT'')" by code_simp
  have o: "arg_output (no_task_args False) = ''text''" by (simp add: no_task_args_def)
  from interactive_loop[of "no_task_args False" text_world
      "[Line ''tools'', Line ''What is the weather in Paris?'', Line ''QUIT'', Line ''exit'']"]
    a r l o
  show ?thesis by simp
qed



end
